theory Spec2Isabelle
  imports Main "HOL-Library.Word"
begin

section \<open>JavaScript strings and \<open>encodeURIComponent\<close>\<close>

text \<open>
  The widget is a single React component, \<open>WhatsAppWidget\<close>. Its strings are JavaScript
  strings: finite sequences of 16-bit code units (UTF-16). \<open>js\<close> writes an ASCII literal
  of the source as such a sequence.
\<close>

type_synonym jsstring = "16 word list"

definition js :: "string \<Rightarrow> jsstring" where
  "js s = map of_char s"

text \<open>
  \<open>handleWhatsAppClick\<close> calls the built-in \<open>encodeURIComponent\<close>. The built-in is part of
  the language, not of the repository; it is written out here after ECMA-262
  (\<open>encodeURIComponent\<close>, the abstract operations \<open>Encode\<close>, \<open>CodePointAt\<close> and
  \<open>UTF16SurrogatePairToCodePoint\<close>): a code unit of the unescaped set is copied, every
  other code point is written as the percent-escaped octets of its UTF-8 encoding, and an
  unpaired surrogate throws \<open>URIError\<close>.
\<close>

datatype error = URIError

definition unescapedURIComponentSet :: jsstring where
  "unescapedURIComponentSet =
     js (''ABCDEFGHIJKLMNOPQRSTUVWXYZ'' @ ''abcdefghijklmnopqrstuvwxyz'' @ ''0123456789'' @ ''_''
         @ ''-.!~*'()'')"

definition isLeadingSurrogate :: "16 word \<Rightarrow> bool" where
  "isLeadingSurrogate c = (0xD800 \<le> c \<and> c \<le> 0xDBFF)"

definition isTrailingSurrogate :: "16 word \<Rightarrow> bool" where
  "isTrailingSurrogate c = (0xDC00 \<le> c \<and> c \<le> 0xDFFF)"

definition UTF16SurrogatePairToCodePoint :: "16 word \<Rightarrow> 16 word \<Rightarrow> nat" where
  "UTF16SurrogatePairToCodePoint lead trail =
     (unat lead - 0xD800) * 0x400 + (unat trail - 0xDC00) + 0x10000"

definition utf8Octets :: "nat \<Rightarrow> nat list" where
  "utf8Octets cp =
     (if cp < 0x80 then [cp]
      else if cp < 0x800 then [0xC0 + cp div 0x40, 0x80 + cp mod 0x40]
      else if cp < 0x10000 then
        [0xE0 + cp div 0x1000, 0x80 + (cp div 0x40) mod 0x40, 0x80 + cp mod 0x40]
      else
        [0xF0 + cp div 0x40000, 0x80 + (cp div 0x1000) mod 0x40,
         0x80 + (cp div 0x40) mod 0x40, 0x80 + cp mod 0x40])"

definition hexDigit :: "nat \<Rightarrow> 16 word" where
  "hexDigit d = js ''0123456789ABCDEF'' ! d"

definition percentEscape :: "nat \<Rightarrow> jsstring" where
  "percentEscape octet = js ''%'' @ [hexDigit (octet div 16), hexDigit (octet mod 16)]"

fun Encode :: "jsstring \<Rightarrow> error + jsstring" where
  "Encode [] = Inr []"
| "Encode (C # rest) =
     (if C \<in> set unescapedURIComponentSet then
        (case Encode rest of Inl e \<Rightarrow> Inl e | Inr R \<Rightarrow> Inr (C # R))
      else if isTrailingSurrogate C then Inl URIError
      else if isLeadingSurrogate C then
        (case rest of
           [] \<Rightarrow> Inl URIError
         | second # rest' \<Rightarrow>
             if isTrailingSurrogate second then
               (case Encode rest' of
                  Inl e \<Rightarrow> Inl e
                | Inr R \<Rightarrow>
                    Inr (concat (map percentEscape
                           (utf8Octets (UTF16SurrogatePairToCodePoint C second))) @ R))
             else Inl URIError)
      else
        (case Encode rest of
           Inl e \<Rightarrow> Inl e
         | Inr R \<Rightarrow> Inr (concat (map percentEscape (utf8Octets (unat C))) @ R)))"

definition encodeURIComponent :: "jsstring \<Rightarrow> error + jsstring" where
  "encodeURIComponent uriComponent = Encode uriComponent"

text \<open>
  A string is well formed when it has no unpaired surrogate
  (\<open>String.prototype.isWellFormed\<close>).
\<close>

fun isWellFormed :: "jsstring \<Rightarrow> bool" where
  "isWellFormed [] = True"
| "isWellFormed (c # rest) =
     (if isLeadingSurrogate c then
        (case rest of [] \<Rightarrow> False | d # rest' \<Rightarrow> isTrailingSurrogate d \<and> isWellFormed rest')
      else if isTrailingSurrogate c then False
      else isWellFormed rest)"

text \<open>\<open>String.prototype.startsWith\<close> and \<open>String.prototype.charAt\<close>.\<close>

definition startsWith :: "jsstring \<Rightarrow> jsstring \<Rightarrow> bool" where
  "startsWith s searchString = (take (length searchString) s = searchString)"

definition charAt :: "jsstring \<Rightarrow> nat \<Rightarrow> jsstring" where
  "charAt s pos = (if pos < length s then [s ! pos] else [])"

text \<open>
  The first character of a string as a reader sees it: its first code point, which is a
  surrogate pair when the string starts with one. (\<open>charAt(0)\<close> is the first code unit.)
\<close>

fun firstCharacter :: "jsstring \<Rightarrow> jsstring" where
  "firstCharacter [] = []"
| "firstCharacter [c] = [c]"
| "firstCharacter (c # d # rest) =
     (if isLeadingSurrogate c \<and> isTrailingSurrogate d then [c, d] else [c])"

text \<open>
  Truthiness of an optional string, as a JavaScript condition reads it: \<open>undefined\<close> and
  the empty string are falsy.
\<close>

definition truthy :: "jsstring option \<Rightarrow> bool" where
  "truthy v = (case v of None \<Rightarrow> False | Some s \<Rightarrow> s \<noteq> [])"

section \<open>The component: props, state and handlers\<close>

text \<open>
  The \<open>position\<close> prop is a union of four string literals; \<open>positionName\<close> gives each
  member's string, which is what \<open>position.startsWith("top")\<close> reads.
\<close>

datatype Position = BottomRight | BottomLeft | TopRight | TopLeft

fun positionName :: "Position \<Rightarrow> jsstring" where
  "positionName BottomRight = js ''bottom-right''"
| "positionName BottomLeft = js ''bottom-left''"
| "positionName TopRight = js ''top-right''"
| "positionName TopLeft = js ''top-left''"

text \<open>
  \<open>WhatsAppWidgetProps\<close>: an optional prop is an \<open>option\<close>, \<open>None\<close> when the host does not
  pass it; the destructuring defaults of the function's parameter list are applied by
  \<open>withDefault\<close>.
\<close>

record WhatsAppWidgetProps =
  phoneNumber :: jsstring
  defaultMessage :: "jsstring option"
  position :: "Position option"
  businessName :: jsstring
  businessLogo :: "jsstring option"
  primaryColor :: "jsstring option"
  welcomeMessage :: "jsstring option"
  inputPlaceholder :: "jsstring option"
  initiallyOpen :: "bool option"
  className :: "jsstring option"
  showTimestamp :: "bool option"

definition withDefault :: "'a \<Rightarrow> 'a option \<Rightarrow> 'a" where
  "withDefault d v = (case v of None \<Rightarrow> d | Some x \<Rightarrow> x)"

text \<open>The three \<open>useState\<close> cells of the component.\<close>

record WidgetState =
  isOpen :: bool
  message :: jsstring
  mounted :: bool

text \<open>
  \<open>useState(initiallyOpen)\<close>, \<open>useState(defaultMessage)\<close>, \<open>useState(false)\<close>: the argument
  of \<open>useState\<close> is read on the first render only.
\<close>

definition initialState :: "WhatsAppWidgetProps \<Rightarrow> WidgetState" where
  "initialState p =
     \<lparr>isOpen = withDefault False (initiallyOpen p),
      message = withDefault [] (defaultMessage p),
      mounted = False\<rparr>"

text \<open>The state setters, and the handlers of the source that call them.\<close>

definition setIsOpen :: "bool \<Rightarrow> WidgetState \<Rightarrow> WidgetState" where
  "setIsOpen v s = s\<lparr>isOpen := v\<rparr>"

definition setMessage :: "jsstring \<Rightarrow> WidgetState \<Rightarrow> WidgetState" where
  "setMessage v s = s\<lparr>message := v\<rparr>"

definition setMounted :: "bool \<Rightarrow> WidgetState \<Rightarrow> WidgetState" where
  "setMounted v s = s\<lparr>mounted := v\<rparr>"

text \<open>
  The floating button's \<open>onClick\<close>, \<open>() => setIsOpen(!isOpen)\<close>. The handler is a closure
  that a render creates: its \<open>isOpen\<close> is the value that render read, here the first
  argument, and not the cell as it is when the handler runs.
\<close>

definition toggleOpen :: "bool \<Rightarrow> WidgetState \<Rightarrow> WidgetState" where
  "toggleOpen renderedIsOpen s = setIsOpen (\<not> renderedIsOpen) s"

text \<open>The header button's \<open>onClick\<close>: \<open>setIsOpen(false)\<close>.\<close>

definition closeChat :: "WidgetState \<Rightarrow> WidgetState" where
  "closeChat s = setIsOpen False s"

text \<open>
  The URL that \<open>handleWhatsAppClick\<close> builds (its template literal over
  \<open>encodeURIComponent(message)\<close>); the specification calls it \<open>buildDeepLink\<close>.
\<close>

definition buildDeepLink :: "jsstring \<Rightarrow> jsstring \<Rightarrow> error + jsstring" where
  "buildDeepLink phone msg =
     (case encodeURIComponent msg of
        Inl e \<Rightarrow> Inl e
      | Inr encodedMessage \<Rightarrow>
          Inr (js ''https://wa.me/'' @ phone @ js ''?text='' @ encodedMessage))"

text \<open>What a handler or a timer callback asks of the browser.\<close>

datatype HTMLTextAreaElement = Textarea

datatype effect = WindowOpen jsstring jsstring | Focus HTMLTextAreaElement

definition handleWhatsAppClick :: "WhatsAppWidgetProps \<Rightarrow> WidgetState \<Rightarrow> error + effect list" where
  "handleWhatsAppClick p s =
     (case buildDeepLink (phoneNumber p) (message s) of
        Inl e \<Rightarrow> Inl e
      | Inr url \<Rightarrow> Inr [WindowOpen url (js ''_blank'')])"

section \<open>Rendering\<close>

fun positionClasses :: "Position \<Rightarrow> jsstring" where
  "positionClasses BottomRight = js ''right-4 md:right-8 bottom-4 md:bottom-8''"
| "positionClasses BottomLeft = js ''left-4 md:left-8 bottom-4 md:bottom-8''"
| "positionClasses TopRight = js ''right-4 md:right-8 top-4 md:top-8''"
| "positionClasses TopLeft = js ''left-4 md:left-8 top-4 md:top-8''"

fun originPoint :: "Position \<Rightarrow> jsstring" where
  "originPoint BottomRight = js ''bottom right''"
| "originPoint BottomLeft = js ''bottom left''"
| "originPoint TopRight = js ''top right''"
| "originPoint TopLeft = js ''top left''"

text \<open>
  \<open>chatContainerVariants\<close>: the vertical offsets of the \<open>hidden\<close> and \<open>exit\<close> variants and
  the transform origin (opacity, scale and the transitions do not depend on the props).
\<close>

record ChatContainerVariants =
  hidden_y :: int
  hidden_transformOrigin :: jsstring
  visible_y :: int
  exit_y :: int

definition chatContainerVariants :: "Position \<Rightarrow> ChatContainerVariants" where
  "chatContainerVariants pos =
     \<lparr>hidden_y = (if startsWith (positionName pos) (js ''top'') then - 20 else 20),
      hidden_transformOrigin = originPoint pos,
      visible_y = 0,
      exit_y = (if startsWith (positionName pos) (js ''top'') then - 15 else 15)\<rparr>"

text \<open>
  The class names of a \<open>className\<close> string (separated by spaces), and the vertical edge a
  corner is anchored to: the container is \<open>fixed\<close> with the classes of \<open>positionClasses\<close>,
  of which \<open>top-4\<close> or \<open>bottom-4\<close> fixes the vertical edge.
\<close>

fun classNames :: "jsstring \<Rightarrow> jsstring list" where
  "classNames [] = [[]]"
| "classNames (c # cs) =
     (if c = 0x20 then [] # classNames cs
      else (case classNames cs of [] \<Rightarrow> [[c]] | t # ts \<Rightarrow> (c # t) # ts))"

definition anchoredTop :: "Position \<Rightarrow> bool" where
  "anchoredTop pos = (js ''top-4'' \<in> set (classNames (positionClasses pos)))"

definition anchoredBottom :: "Position \<Rightarrow> bool" where
  "anchoredBottom pos = (js ''bottom-4'' \<in> set (classNames (positionClasses pos)))"

text \<open>The header avatar: the logo image when \<open>businessLogo\<close> is truthy, else the initial.\<close>

datatype Avatar = Img jsstring jsstring | Initial jsstring

definition avatar :: "WhatsAppWidgetProps \<Rightarrow> Avatar" where
  "avatar p =
     (if truthy (businessLogo p) then Img (withDefault [] (businessLogo p)) (businessName p)
      else Initial (charAt (businessName p) 0))"

text \<open>
  The element tree the component returns: \<open>None\<close> for \<open>return null\<close>; the chat panel is
  the child of \<open>AnimatePresence\<close>, present when \<open>isOpen\<close>.
\<close>

record Panel =
  variants :: ChatContainerVariants
  headerColor :: jsstring
  headerAvatar :: Avatar
  headerName :: jsstring
  welcomeText :: jsstring
  timestampShown :: bool
  textareaValue :: jsstring
  textareaPlaceholder :: jsstring

record View =
  containerClass :: jsstring
  panel :: "Panel option"
  buttonColor :: jsstring
  buttonLabel :: jsstring

definition renderPanel :: "WhatsAppWidgetProps \<Rightarrow> WidgetState \<Rightarrow> Panel" where
  "renderPanel p s =
     \<lparr>variants = chatContainerVariants (withDefault BottomRight (position p)),
      headerColor = withDefault (js ''#25D366'') (primaryColor p),
      headerAvatar = avatar p,
      headerName = businessName p,
      welcomeText = withDefault (js ''Hello! How can I help you today?'') (welcomeMessage p),
      timestampShown = withDefault True (showTimestamp p),
      textareaValue = message s,
      textareaPlaceholder = withDefault (js ''Type a message...'') (inputPlaceholder p)\<rparr>"

definition render :: "WhatsAppWidgetProps \<Rightarrow> WidgetState \<Rightarrow> View option" where
  "render p s =
     (if \<not> mounted s then None
      else Some
        \<lparr>containerClass =
           js ''fixed z-50 '' @ positionClasses (withDefault BottomRight (position p))
             @ js '' flex flex-col items-end '' @ withDefault [] (className p),
         panel = (if isOpen s then Some (renderPanel p s) else None),
         buttonColor = withDefault (js ''#25D366'') (primaryColor p),
         buttonLabel = (if isOpen s then js ''Close chat'' else js ''Open WhatsApp chat'')\<rparr>)"

definition renderedPanel :: "WhatsAppWidgetProps \<Rightarrow> WidgetState \<Rightarrow> Panel option" where
  "renderedPanel p s = (case render p s of None \<Rightarrow> None | Some v \<Rightarrow> panel v)"

section \<open>The mounted instance: effects, the input ref and the focus timer\<close>

text \<open>
  One instance of the component as the React runtime holds it: the current props; the
  state cells, with every update requested so far applied; the cells as the last
  committed render read them, which are the values the closures of that render hold
  (handlers, effect bodies); \<open>inputRef.current\<close> (\<open>None\<close> for \<open>null\<close>); the number of
  \<open>setTimeout\<close> callbacks that are scheduled and have not fired; and whether the instance
  is still mounted in the host's tree. The source never keeps a timer handle and never
  calls \<open>clearTimeout\<close>, and neither \<open>useEffect\<close> returns a cleanup function, so nothing
  below removes a scheduled callback except its firing.
\<close>

record Widget =
  props :: WhatsAppWidgetProps
  state :: WidgetState
  rendered :: WidgetState
  inputRef :: "HTMLTextAreaElement option"
  timers :: nat
  live :: bool

text \<open>The first render: \<open>useState\<close> reads its arguments, \<open>useRef(null)\<close>.\<close>

definition mount :: "WhatsAppWidgetProps \<Rightarrow> Widget" where
  "mount p =
     \<lparr>props = p, state = initialState p, rendered = initialState p, inputRef = None,
      timers = 0, live = True\<rparr>"

text \<open>
  Committing a render attaches the \<open>ref\<close> of the textarea when the panel is in the
  returned tree. When the panel leaves the tree, \<open>AnimatePresence\<close> keeps it mounted
  until its exit animation has completed (\<open>ExitComplete\<close> below), so the ref is kept here.
\<close>

definition commitRefs :: "Widget \<Rightarrow> Widget" where
  "commitRefs w =
     (case renderedPanel (props w) (rendered w) of
        None \<Rightarrow> w
      | Some pn \<Rightarrow> w\<lparr>inputRef := Some Textarea\<rparr>)"

text \<open>
  The body of the second effect, \<open>if (isOpen && inputRef.current) setTimeout(..., 300)\<close>,
  with the \<open>isOpen\<close> of the render it belongs to, and the callback it schedules,
  \<open>inputRef.current?.focus()\<close>.
\<close>

definition focusEffect :: "Widget \<Rightarrow> Widget" where
  "focusEffect w =
     (if isOpen (rendered w) \<and> inputRef w \<noteq> None then w\<lparr>timers := Suc (timers w)\<rparr> else w)"

definition focusCallback :: "Widget \<Rightarrow> effect list" where
  "focusCallback w = (case inputRef w of None \<Rightarrow> [] | Some el \<Rightarrow> [Focus el])"

text \<open>
  React renders the component with the current props and cells and commits the result:
  the new closures hold these values, refs are attached, and the effect with dependency
  list \<open>[isOpen]\<close> runs when \<open>isOpen\<close> differs from the one of the render before.
\<close>

definition commit :: "Widget \<Rightarrow> Widget" where
  "commit w =
     (let c = commitRefs (w\<lparr>rendered := state w\<rparr>)
      in if isOpen (state w) = isOpen (rendered w) then c else focusEffect c)"

text \<open>
  What can happen to an instance. \<open>MountEffects\<close> is the run of both effects after the
  first commit: the first one calls \<open>setMounted(true)\<close>, the second one reads \<open>isOpen\<close> and
  the ref. \<open>Rerender\<close> is the host passing new props.
\<close>

datatype event =
    MountEffects
  | ClickFloatingButton
  | ClickClose
  | ChangeText jsstring
  | ClickSend
  | Rerender WhatsAppWidgetProps
  | ExitComplete
  | Unmount
  | TimerFires

text \<open>
  \<open>invoke\<close> is the body of the handler, effect or callback alone: it reads what its
  closure holds (\<open>rendered\<close>), a state setter writes the cell, and nothing is rendered.
\<close>

fun invoke :: "event \<Rightarrow> Widget \<Rightarrow> Widget \<times> (error + effect list)" where
  "invoke MountEffects w =
     (if mounted (state w) then w
      else (let w1 = focusEffect w in w1\<lparr>state := setMounted True (state w1)\<rparr>),
      Inr [])"
| "invoke ClickFloatingButton w =
     (w\<lparr>state := toggleOpen (isOpen (rendered w)) (state w)\<rparr>, Inr [])"
| "invoke ClickClose w = (w\<lparr>state := closeChat (state w)\<rparr>, Inr [])"
| "invoke (ChangeText v) w = (w\<lparr>state := setMessage v (state w)\<rparr>, Inr [])"
| "invoke ClickSend w = (w, handleWhatsAppClick (props w) (rendered w))"
| "invoke (Rerender p) w = (w\<lparr>props := p\<rparr>, Inr [])"
| "invoke ExitComplete w =
     (if isOpen (rendered w) then w else w\<lparr>inputRef := None\<rparr>, Inr [])"
| "invoke Unmount w = (w\<lparr>inputRef := None, live := False\<rparr>, Inr [])"
| "invoke TimerFires w =
     (if 0 < timers w then (w\<lparr>timers := timers w - 1\<rparr>, Inr (focusCallback w))
      else (w, Inr []))"

text \<open>
  The events after which React renders again: those whose body calls a state setter, and
  new props from the host.
\<close>

fun rerenders :: "event \<Rightarrow> bool" where
  "rerenders MountEffects = True"
| "rerenders ClickFloatingButton = True"
| "rerenders ClickClose = True"
| "rerenders (ChangeText v) = True"
| "rerenders (Rerender p) = True"
| "rerenders ClickSend = False"
| "rerenders ExitComplete = False"
| "rerenders Unmount = False"
| "rerenders TimerFires = False"

text \<open>
  An event handled in a task of its own, as a user's click or keystroke is: the body
  runs, and React renders and commits before the next event arrives.
\<close>

definition handleEvent :: "event \<Rightarrow> Widget \<Rightarrow> Widget \<times> (error + effect list)" where
  "handleEvent e w =
     (if rerenders e then commit (fst (invoke e w)) else fst (invoke e w), snd (invoke e w))"

text \<open>
  A timer belongs to the browser and fires whether or not the instance is still mounted;
  every other event reaches a mounted instance only.
\<close>

definition dispatch :: "event \<Rightarrow> Widget \<Rightarrow> Widget \<times> (error + effect list)" where
  "dispatch e w = (if live w \<or> e = TimerFires then handleEvent e w else (w, Inr []))"

fun run :: "event list \<Rightarrow> Widget \<Rightarrow> Widget" where
  "run [] w = w"
| "run (e # es) w = run es (fst (dispatch e w))"

fun outputs :: "event list \<Rightarrow> Widget \<Rightarrow> (error + effect list) list" where
  "outputs [] w = []"
| "outputs (e # es) w = snd (dispatch e w) # outputs es (fst (dispatch e w))"

text \<open>
  Several handlers called within one task (two \<open>click()\<close> calls in a row, say): every
  body runs with the closures of the same render, and React renders once afterwards.
\<close>

fun invokeAll :: "event list \<Rightarrow> Widget \<Rightarrow> Widget" where
  "invokeAll [] w = w"
| "invokeAll (e # es) w = invokeAll es (fst (invoke e w))"

definition batch :: "event list \<Rightarrow> Widget \<Rightarrow> Widget" where
  "batch es w = (if live w then commit (invokeAll es w) else w)"

definition effectsOf :: "error + effect list \<Rightarrow> effect list" where
  "effectsOf r = (case r of Inl e \<Rightarrow> [] | Inr effs \<Rightarrow> effs)"

text \<open>An instance that has been unmounted: no longer live, its ref detached.\<close>

definition gone :: "Widget \<Rightarrow> bool" where
  "gone w = (\<not> live w \<and> inputRef w = None)"

text \<open>A configuration for the concrete instances below.\<close>

definition sampleProps :: WhatsAppWidgetProps where
  "sampleProps =
     \<lparr>phoneNumber = js ''491701234567'',
      defaultMessage = Some (js ''Hello''),
      position = Some TopLeft,
      businessName = js ''Acme'',
      businessLogo = None,
      primaryColor = None,
      welcomeMessage = None,
      inputPlaceholder = None,
      initiallyOpen = None,
      className = None,
      showTimestamp = None\<rparr>"

section \<open>Facts about the encoder\<close>

lemmas encode_defs =
  js_def unescapedURIComponentSet_def isLeadingSurrogate_def isTrailingSurrogate_def
  utf8Octets_def percentEscape_def hexDigit_def UTF16SurrogatePairToCodePoint_def

lemma unescaped_not_surrogate:
  "C \<in> set unescapedURIComponentSet \<Longrightarrow> \<not> isLeadingSurrogate C \<and> \<not> isTrailingSurrogate C"
  unfolding unescapedURIComponentSet_def js_def isLeadingSurrogate_def isTrailingSurrogate_def
  by auto

lemma surrogates_disjoint: "isTrailingSurrogate C \<Longrightarrow> \<not> isLeadingSurrogate C"
  by (auto simp: isLeadingSurrogate_def isTrailingSurrogate_def word_le_nat_alt)

lemma Encode_returns_iff: "(\<exists>R. Encode s = Inr R) = isWellFormed s"
proof (induction s rule: Encode.induct)
  case 1
  show ?case by simp
next
  case (2 C rest)
  show ?case
  proof (cases "C \<in> set unescapedURIComponentSet")
    case True
    with 2(1) unescaped_not_surrogate[OF True] show ?thesis
      by (auto split: sum.splits)
  next
    case False
    note nu = False
    show ?thesis
    proof (cases "isTrailingSurrogate C")
      case True
      with nu surrogates_disjoint[OF True] show ?thesis by simp
    next
      case False
      note nt = False
      show ?thesis
      proof (cases "isLeadingSurrogate C")
        case True
        show ?thesis
        proof (cases rest)
          case Nil
          with nu nt True show ?thesis by simp
        next
          case (Cons second rest')
          with nu nt True 2(2)[OF nu nt True Cons] show ?thesis
            by (auto split: sum.splits)
        qed
      next
        case False
        with nu nt 2(3)[OF nu nt False] show ?thesis
          by (auto split: sum.splits)
      qed
    qed
  qed
qed

lemma Encode_error: "\<not> isWellFormed s \<Longrightarrow> Encode s = Inl URIError"
proof -
  assume "\<not> isWellFormed s"
  then have "\<not> (\<exists>R. Encode s = Inr R)" by (simp add: Encode_returns_iff)
  then obtain e where "Encode s = Inl e" by (cases "Encode s") auto
  then show ?thesis by (cases e) simp
qed



lemma encodeURIComponent_emoji: "encodeURIComponent [0xD83D, 0xDE00] = Inr (js ''%F0%9F%98%80'')"
  by (simp add: encodeURIComponent_def encode_defs)

lemma encodeURIComponent_lone: "encodeURIComponent [0xD800] = Inl URIError"
  by (simp add: encodeURIComponent_def encode_defs)














section \<open>The deep link\<close>

text \<open>
  C1 (as amended). For every destination and every message that is well-formed UTF-16 (no
  unpaired surrogate), \<open>encodeURIComponent\<close> returns and the link is exactly
  \<open>https://wa.me/\<close>, the destination, \<open>?text=\<close> and the encoded message, in this order;
  for a message with an unpaired surrogate \<open>encodeURIComponent\<close> throws \<open>URIError\<close> and no
  link is built; for the empty message the link ends in \<open>?text=\<close>.
\<close>

theorem buildDeepLink_shape:
  "(isWellFormed msg \<longrightarrow>
      (\<exists>encoded. encodeURIComponent msg = Inr encoded \<and>
         buildDeepLink destinationId msg =
           Inr (js ''https://wa.me/'' @ destinationId @ js ''?text='' @ encoded)))
   \<and> (\<not> isWellFormed msg \<longrightarrow> buildDeepLink destinationId msg = Inl URIError)
   \<and> buildDeepLink destinationId [] = Inr (js ''https://wa.me/'' @ destinationId @ js ''?text='')"
proof (intro conjI impI)
  assume "isWellFormed msg"
  then obtain R where "Encode msg = Inr R"
    using Encode_returns_iff[of msg] by blast
  then show "\<exists>encoded. encodeURIComponent msg = Inr encoded \<and>
         buildDeepLink destinationId msg =
           Inr (js ''https://wa.me/'' @ destinationId @ js ''?text='' @ encoded)"
    by (simp add: buildDeepLink_def encodeURIComponent_def)
next
  assume "\<not> isWellFormed msg"
  then show "buildDeepLink destinationId msg = Inl URIError"
    by (simp add: buildDeepLink_def encodeURIComponent_def Encode_error)
next
  show "buildDeepLink destinationId [] = Inr (js ''https://wa.me/'' @ destinationId @ js ''?text='')"
    by (simp add: buildDeepLink_def encodeURIComponent_def)
qed

theorem buildDeepLink_shape_witness:
  "isWellFormed [0xD83D, 0xDE00]
   \<and> buildDeepLink (js ''491701234567'') [0xD83D, 0xDE00] =
       Inr (js ''https://wa.me/491701234567?text=%F0%9F%98%80'')
   \<and> \<not> isWellFormed [0xDE00, 0xD83D]
   \<and> buildDeepLink (js ''491701234567'') [0xDE00, 0xD83D] = Inl URIError"
proof -
  have wf: "isWellFormed [0xD83D, 0xDE00]"
    by (simp add: isLeadingSurrogate_def isTrailingSurrogate_def)
  have nwf: "\<not> isWellFormed [0xDE00, 0xD83D]"
    by (simp add: isLeadingSurrogate_def isTrailingSurrogate_def)
  from buildDeepLink_shape[of "[0xD83D, 0xDE00]" "js ''491701234567''"] wf
  obtain encoded where e: "encodeURIComponent [0xD83D, 0xDE00] = Inr encoded"
    and b: "buildDeepLink (js ''491701234567'') [0xD83D, 0xDE00] =
           Inr (js ''https://wa.me/'' @ js ''491701234567'' @ js ''?text='' @ encoded)"
    by blast
  from e have "encoded = js ''%F0%9F%98%80''"
    by (simp add: encodeURIComponent_emoji)
  with b have b': "buildDeepLink (js ''491701234567'') [0xD83D, 0xDE00] =
       Inr (js ''https://wa.me/491701234567?text=%F0%9F%98%80'')"
    by (simp add: js_def)
  from buildDeepLink_shape[of "[0xDE00, 0xD83D]" "js ''491701234567''"] nwf
  have "buildDeepLink (js ''491701234567'') [0xDE00, 0xD83D] = Inl URIError"
    by blast
  with wf nwf b' show ?thesis by blast
qed

text \<open>
  C1 as stated ("for every text string ... returns a string") fails at a message that is
  a single unpaired surrogate: the handler throws.
\<close>

theorem buildDeepLink_lone_surrogate:
  "buildDeepLink (js ''15551234567'') [0xD800] = Inl URIError"
  by (simp add: buildDeepLink_def encodeURIComponent_lone)




section \<open>Facts about rendering and the instance\<close>

lemma renderedPanel_eq:
  "renderedPanel p s = (if mounted s \<and> isOpen s then Some (renderPanel p s) else None)"
  by (simp add: renderedPanel_def render_def)

lemma commitRefs_eq:
  "commitRefs w =
     (if mounted (rendered w) \<and> isOpen (rendered w) then w\<lparr>inputRef := Some Textarea\<rparr> else w)"
  by (simp add: commitRefs_def renderedPanel_eq)

lemma commit_fields:
  "state (commit w) = state w" "props (commit w) = props w"
  "live (commit w) = live w" "rendered (commit w) = state w"
  by (simp_all add: commit_def Let_def commitRefs_eq focusEffect_def)

lemma timers_commit_closed: "\<not> isOpen (state w) \<Longrightarrow> timers (commit w) = timers w"
  by (simp add: commit_def Let_def commitRefs_eq focusEffect_def)

lemmas setter_defs =
  toggleOpen_def closeChat_def setIsOpen_def setMessage_def setMounted_def

lemma mounted_dispatch: "mounted (state w) \<Longrightarrow> mounted (state (fst (dispatch e w)))"
  by (cases e)
    (simp_all add: dispatch_def handleEvent_def commit_fields focusEffect_def Let_def setter_defs)

lemma mounted_run: "mounted (state w) \<Longrightarrow> mounted (state (run es w))"
  by (induction es arbitrary: w) (simp_all add: mounted_dispatch)

lemma mounted_MountEffects: "live w \<Longrightarrow> mounted (state (fst (dispatch MountEffects w)))"
  by (simp add: dispatch_def handleEvent_def commit_fields focusEffect_def Let_def setter_defs)

lemma mounted_rendered_dispatch:
  "mounted (state w) \<and> mounted (rendered w) \<Longrightarrow>
     mounted (state (fst (dispatch e w))) \<and> mounted (rendered (fst (dispatch e w)))"
  by (cases e)
    (simp_all add: dispatch_def handleEvent_def commit_fields focusEffect_def Let_def setter_defs)

lemma mounted_rendered_run:
  "mounted (state w) \<and> mounted (rendered w) \<Longrightarrow>
     mounted (state (run es w)) \<and> mounted (rendered (run es w))"
proof (induction es arbitrary: w)
  case Nil
  then show ?case by simp
next
  case (Cons e es)
  from Cons.IH[OF mounted_rendered_dispatch[OF Cons.prems, of e]] show ?case by simp
qed

lemma mounted_rendered_MountEffects:
  "live w \<Longrightarrow> mounted (rendered (fst (dispatch MountEffects w)))"
  by (simp add: dispatch_def handleEvent_def commit_fields focusEffect_def Let_def setter_defs)

lemmas run_defs =
  dispatch_def handleEvent_def batch_def commit_def Let_def commitRefs_eq focusEffect_def
  focusCallback_def mount_def initialState_def sampleProps_def withDefault_def setter_defs

lemma mounted_sample:
  "run [MountEffects] (mount sampleProps) =
     \<lparr>props = sampleProps,
      state = \<lparr>isOpen = False, message = js ''Hello'', mounted = True\<rparr>,
      rendered = \<lparr>isOpen = False, message = js ''Hello'', mounted = True\<rparr>,
      inputRef = None, timers = 0, live = True\<rparr>"
  by (simp add: run_defs)

lemma opened:
  "run [MountEffects, ClickFloatingButton] (mount sampleProps) =
     \<lparr>props = sampleProps,
      state = \<lparr>isOpen = True, message = js ''Hello'', mounted = True\<rparr>,
      rendered = \<lparr>isOpen = True, message = js ''Hello'', mounted = True\<rparr>,
      inputRef = Some Textarea, timers = 1, live = True\<rparr>"
  by (simp add: run_defs)

section \<open>The visibility toggle\<close>

text \<open>
  C4 (as amended). The floating button's handler sets \<open>isOpen\<close> to the negation of the
  \<open>isOpen\<close> its render read. On a mounted instance whose last render is up to date, one
  click flips \<open>isOpen\<close>, and two clicks, each handled in a task of its own so that the
  component renders between them, give back the state cells they started from. Two calls
  of the handler within one task come from the same render and leave \<open>isOpen\<close> flipped.
\<close>

theorem toggleOpen_involution:
  "isOpen (toggleOpen renderedIsOpen s) = (\<not> renderedIsOpen)
   \<and> (live w \<and> rendered w = state w \<longrightarrow>
        isOpen (state (fst (dispatch ClickFloatingButton w))) = (\<not> isOpen (state w))
        \<and> rendered (fst (dispatch ClickFloatingButton w)) = state (fst (dispatch ClickFloatingButton w))
        \<and> state (run [ClickFloatingButton, ClickFloatingButton] w) = state w
        \<and> isOpen (state (batch [ClickFloatingButton, ClickFloatingButton] w)) = (\<not> isOpen (state w)))"
proof (intro conjI impI)
  show "isOpen (toggleOpen renderedIsOpen s) = (\<not> renderedIsOpen)"
    by (simp add: toggleOpen_def setIsOpen_def)
next
  assume a: "live w \<and> rendered w = state w"
  then show "isOpen (state (fst (dispatch ClickFloatingButton w))) = (\<not> isOpen (state w))"
    by (simp add: dispatch_def handleEvent_def commit_fields toggleOpen_def setIsOpen_def)
  from a show "rendered (fst (dispatch ClickFloatingButton w)) = state (fst (dispatch ClickFloatingButton w))"
    by (simp add: dispatch_def handleEvent_def commit_fields)
  from a show "state (run [ClickFloatingButton, ClickFloatingButton] w) = state w"
    by (simp add: dispatch_def handleEvent_def commit_fields toggleOpen_def setIsOpen_def)
  from a show "isOpen (state (batch [ClickFloatingButton, ClickFloatingButton] w)) = (\<not> isOpen (state w))"
    by (simp add: batch_def commit_fields toggleOpen_def setIsOpen_def)
qed

theorem toggleOpen_involution_witness:
  "live (run [MountEffects] (mount sampleProps))
   \<and> rendered (run [MountEffects] (mount sampleProps)) = state (run [MountEffects] (mount sampleProps))
   \<and> render sampleProps (rendered (run [MountEffects] (mount sampleProps))) \<noteq> None
   \<and> \<not> isOpen (state (run [MountEffects] (mount sampleProps)))
   \<and> isOpen (state (fst (dispatch ClickFloatingButton (run [MountEffects] (mount sampleProps)))))
   \<and> \<not> isOpen (state (run [ClickFloatingButton, ClickFloatingButton]
          (run [MountEffects] (mount sampleProps))))"
proof -
  let ?w = "run [MountEffects] (mount sampleProps)"
  have l: "live ?w \<and> rendered ?w = state ?w" unfolding mounted_sample by simp
  have r: "render sampleProps (rendered ?w) \<noteq> None" unfolding mounted_sample by (simp add: render_def)
  have c: "\<not> isOpen (state ?w)" unfolding mounted_sample by simp
  from toggleOpen_involution[of _ _ ?w] l c
  have "isOpen (state (fst (dispatch ClickFloatingButton ?w)))"
    and "\<not> isOpen (state (run [ClickFloatingButton, ClickFloatingButton] ?w))"
    by auto
  with l r c show ?thesis by blast
qed

text \<open>
  C4 as stated ("applying toggleOpen twice yields the original value") fails when the
  handler is called twice before the component has rendered again: both calls set the
  negation of the same rendered value, and the closed widget ends open.
\<close>

theorem toggle_twice_in_one_task:
  "\<not> isOpen (state (run [MountEffects] (mount sampleProps)))
   \<and> isOpen (state (batch [ClickFloatingButton, ClickFloatingButton]
        (run [MountEffects] (mount sampleProps))))"
  by (simp add: run_defs)

section \<open>Sending\<close>

text \<open>
  C6. The send click leaves the instance as it was: the message, \<open>isOpen\<close>, \<open>mounted\<close>
  and the props are unchanged, whether the handler opens the link or throws; all it does
  is what \<open>handleWhatsAppClick\<close> returns.
\<close>

theorem send_frame:
  "fst (dispatch ClickSend w) = w
   \<and> message (state (fst (dispatch ClickSend w))) = message (state w)
   \<and> isOpen (state (fst (dispatch ClickSend w))) = isOpen (state w)
   \<and> mounted (state (fst (dispatch ClickSend w))) = mounted (state w)
   \<and> props (fst (dispatch ClickSend w)) = props w
   \<and> snd (handleEvent ClickSend w) = handleWhatsAppClick (props w) (rendered w)"
  by (simp add: dispatch_def handleEvent_def)

section \<open>The mounted gate\<close>

text \<open>
  C7. The component returns nothing exactly when \<open>mounted\<close> is false, and its tree holds
  the chat panel exactly when \<open>mounted\<close> and \<open>isOpen\<close> are both true. \<open>mounted\<close> is false
  on the first render, true once the mount effects have run, and after that no sequence
  of events makes it false again, neither in the cell nor in what the last render read.
\<close>

theorem panel_gate_and_latch:
  "(render p s = None) = (\<not> mounted s)
   \<and> (renderedPanel p s \<noteq> None) = (mounted s \<and> isOpen s)
   \<and> \<not> mounted (state (mount p))
   \<and> mounted (state (run (MountEffects # es) (mount p)))
   \<and> mounted (rendered (run (MountEffects # es) (mount p)))
   \<and> (mounted (state w) \<longrightarrow> mounted (state (run es w)))
   \<and> (mounted (state w) \<and> mounted (rendered w) \<longrightarrow> mounted (rendered (run es w)))"
proof (intro conjI impI)
  show "(render p s = None) = (\<not> mounted s)" by (simp add: render_def)
  show "(renderedPanel p s \<noteq> None) = (mounted s \<and> isOpen s)" by (simp add: renderedPanel_eq)
  show "\<not> mounted (state (mount p))" by (simp add: mount_def initialState_def)
  have l: "live (mount p)" by (simp add: mount_def)
  then show "mounted (state (run (MountEffects # es) (mount p)))"
    by (simp add: mounted_run mounted_MountEffects)
  from l show "mounted (rendered (run (MountEffects # es) (mount p)))"
    using mounted_rendered_run[of "fst (dispatch MountEffects (mount p))" es]
    by (simp add: mounted_MountEffects mounted_rendered_MountEffects)
next
  assume "mounted (state w)"
  then show "mounted (state (run es w))" by (rule mounted_run)
next
  assume "mounted (state w) \<and> mounted (rendered w)"
  then show "mounted (rendered (run es w))" using mounted_rendered_run by blast
qed

theorem panel_gate_and_latch_witness:
  "mounted (state (fst (dispatch MountEffects (mount sampleProps))))
   \<and> mounted (rendered (fst (dispatch MountEffects (mount sampleProps))))
   \<and> mounted (state (run [ClickFloatingButton, ChangeText (js ''Hi''), ClickClose, Unmount, TimerFires]
         (fst (dispatch MountEffects (mount sampleProps)))))
   \<and> mounted (rendered (run [ClickFloatingButton, ChangeText (js ''Hi''), ClickClose, Unmount, TimerFires]
         (fst (dispatch MountEffects (mount sampleProps)))))"
proof -
  have m: "mounted (state (fst (dispatch MountEffects (mount sampleProps))))"
    and r: "mounted (rendered (fst (dispatch MountEffects (mount sampleProps))))"
    by (simp_all add: mounted_MountEffects mounted_rendered_MountEffects mount_def)
  from panel_gate_and_latch[of sampleProps "state (mount sampleProps)"
      "[ClickFloatingButton, ChangeText (js ''Hi''), ClickClose, Unmount, TimerFires]"
      "fst (dispatch MountEffects (mount sampleProps))"] m r
  show ?thesis by blast
qed

section \<open>The composer\<close>

text \<open>
  C8. \<open>setMessage\<close> stores exactly the string it is given, whatever it is, and changes
  nothing else: on a mounted instance a change event leaves \<open>isOpen\<close>, \<open>mounted\<close> and the
  props as they were, and the render that follows reads the new string. Whenever the
  panel is rendered, the textarea's value is the message that render read.
\<close>

theorem setMessage_exact:
  "setMessage newText s = s\<lparr>message := newText\<rparr>
   \<and> message (setMessage newText s) = newText
   \<and> (live w \<longrightarrow>
        message (state (fst (dispatch (ChangeText newText) w))) = newText
        \<and> isOpen (state (fst (dispatch (ChangeText newText) w))) = isOpen (state w)
        \<and> mounted (state (fst (dispatch (ChangeText newText) w))) = mounted (state w)
        \<and> props (fst (dispatch (ChangeText newText) w)) = props w
        \<and> message (rendered (fst (dispatch (ChangeText newText) w))) = newText)
   \<and> map_option textareaValue (renderedPanel p s) =
       (if mounted s \<and> isOpen s then Some (message s) else None)"
  by (simp add: setMessage_def dispatch_def handleEvent_def commit_fields renderedPanel_eq
      renderPanel_def)

theorem setMessage_exact_witness:
  "live (run [MountEffects, ClickFloatingButton] (mount sampleProps))
   \<and> message (state (fst (dispatch (ChangeText (js '' two words '' @ [0x0A]))
        (run [MountEffects, ClickFloatingButton] (mount sampleProps)))))
       = js '' two words '' @ [0x0A]
   \<and> message (state (fst (dispatch (ChangeText [])
        (run [MountEffects, ClickFloatingButton] (mount sampleProps))))) = []
   \<and> props (fst (dispatch (ChangeText [])
        (run [MountEffects, ClickFloatingButton] (mount sampleProps)))) = sampleProps"
proof -
  let ?w = "run [MountEffects, ClickFloatingButton] (mount sampleProps)"
  have l: "live ?w" and p: "props ?w = sampleProps" unfolding opened by simp_all
  from setMessage_exact[of "js '' two words '' @ [0x0A]" _ ?w]
    setMessage_exact[of "[]" _ ?w] l p
  show ?thesis by simp
qed

section \<open>Facts about the corners\<close>

lemma anchoredTop_iff: "anchoredTop pos = (pos = TopRight \<or> pos = TopLeft)"
  by (cases pos) (simp_all add: anchoredTop_def js_def)

lemma anchoredBottom_iff: "anchoredBottom pos = (pos = BottomRight \<or> pos = BottomLeft)"
  by (cases pos) (simp_all add: anchoredBottom_def js_def)

lemma startsWith_top: "startsWith (positionName pos) (js ''top'') = (pos = TopRight \<or> pos = TopLeft)"
  by (cases pos) (simp_all add: startsWith_def js_def)

section \<open>Entrance and exit offsets\<close>

text \<open>
  C5. For each of the four corners, the vertical offset of the \<open>hidden\<close> variant and of
  the \<open>exit\<close> variant is negative exactly when the corner is anchored to the top edge
  (\<open>top-right\<close>, \<open>top-left\<close>) and positive exactly when it is anchored to the bottom edge
  (\<open>bottom-right\<close>, \<open>bottom-left\<close>); the panel is rendered with these variants.
\<close>

theorem chatContainerVariants_vertical:
  "(hidden_y (chatContainerVariants pos) < 0 \<and> exit_y (chatContainerVariants pos) < 0) = anchoredTop pos
   \<and> (0 < hidden_y (chatContainerVariants pos) \<and> 0 < exit_y (chatContainerVariants pos))
       = anchoredBottom pos
   \<and> anchoredTop pos = (pos = TopRight \<or> pos = TopLeft)
   \<and> anchoredBottom pos = (pos = BottomRight \<or> pos = BottomLeft)
   \<and> variants (renderPanel p s) = chatContainerVariants (withDefault BottomRight (position p))"
  unfolding chatContainerVariants_def startsWith_top anchoredTop_iff anchoredBottom_iff
    renderPanel_def
  by (cases pos) simp_all

section \<open>The avatar\<close>

text \<open>
  C9 (as amended). When \<open>businessLogo\<close> is absent or the empty string, the avatar is the
  first character of \<open>businessName\<close>, unchanged, for every name whose first character is
  one code unit; a name that starts with a surrogate pair is left open here. When
  \<open>businessLogo\<close> is a non-empty string, the avatar is the image with that source.
\<close>

theorem avatar_rendering:
  "((businessLogo p = None \<or> businessLogo p = Some []) \<and> businessName p = c # rest
      \<and> firstCharacter (c # rest) = [c] \<longrightarrow>
      avatar p = Initial [c])
   \<and> (businessLogo p = Some url \<and> url \<noteq> [] \<longrightarrow> avatar p = Img url (businessName p))
   \<and> headerAvatar (renderPanel p s) = avatar p"
  by (auto simp: avatar_def truthy_def charAt_def withDefault_def renderPanel_def
      split: option.splits)

theorem avatar_rendering_witness:
  "businessLogo sampleProps = None
   \<and> firstCharacter (js ''Acme'') = js ''A''
   \<and> avatar sampleProps = Initial (js ''A'')
   \<and> firstCharacter (js ''acme'') = js ''a''
   \<and> avatar (sampleProps\<lparr>businessName := js ''acme''\<rparr>) = Initial (js ''a'')
   \<and> avatar (sampleProps\<lparr>businessLogo := Some (js ''/logo.png'')\<rparr>)
       = Img (js ''/logo.png'') (js ''Acme'')"
proof -
  have n: "businessLogo sampleProps = None" by (simp add: sampleProps_def)
  have a: "businessName sampleProps = 0x41 # js ''cme''" by (simp add: sampleProps_def js_def)
  have fa: "firstCharacter (0x41 # js ''cme'') = [0x41]"
    by (simp add: js_def isLeadingSurrogate_def)
  have b: "businessName (sampleProps\<lparr>businessName := js ''acme''\<rparr>) = 0x61 # js ''cme''"
    by (simp add: js_def)
  have fb: "firstCharacter (0x61 # js ''cme'') = [0x61]"
    by (simp add: js_def isLeadingSurrogate_def)
  have u: "js ''/logo.png'' \<noteq> []" by (simp add: js_def)
  have c: "businessName (sampleProps\<lparr>businessLogo := Some (js ''/logo.png'')\<rparr>) = js ''Acme''"
    by (simp add: sampleProps_def)
  from avatar_rendering[of sampleProps "0x41" "js ''cme''"] n a fa
  have 1: "avatar sampleProps = Initial (js ''A'')" by (simp add: js_def)
  from avatar_rendering[of "sampleProps\<lparr>businessName := js ''acme''\<rparr>" "0x61" "js ''cme''"] n b fb
  have 2: "avatar (sampleProps\<lparr>businessName := js ''acme''\<rparr>) = Initial (js ''a'')"
    by (simp add: js_def)
  from avatar_rendering[of "sampleProps\<lparr>businessLogo := Some (js ''/logo.png'')\<rparr>" _ _ "js ''/logo.png''"] u c
  have 3: "avatar (sampleProps\<lparr>businessLogo := Some (js ''/logo.png'')\<rparr>)
       = Img (js ''/logo.png'') (js ''Acme'')" by simp
  have 4: "firstCharacter (js ''Acme'') = js ''A''" "firstCharacter (js ''acme'') = js ''a''"
    by (simp_all add: js_def isLeadingSurrogate_def)
  from n 1 2 3 4 show ?thesis by blast
qed

text \<open>
  C9 as stated ("when avatarUrl is supplied, the image is rendered") fails for a logo
  that is supplied as the empty string: the condition \<open>businessLogo ? ... : ...\<close> is
  falsy and the initial is rendered.
\<close>

theorem avatar_empty_logo:
  "avatar (sampleProps\<lparr>businessLogo := Some (js '''')\<rparr>) = Initial (js ''A'')
   \<and> avatar (sampleProps\<lparr>businessLogo := Some (js '''')\<rparr>) \<noteq> Img (js '''') (js ''Acme'')"
  by (simp add: avatar_def truthy_def charAt_def sampleProps_def js_def)

text \<open>
  For a name that starts with a surrogate pair, \<open>charAt(0)\<close> is the leading surrogate
  alone, half of the first character; the statement above makes no promise there.
\<close>

lemma avatar_astral_name:
  "avatar (sampleProps\<lparr>businessName := [0xD83D, 0xDE00]\<rparr>) = Initial [0xD83D]
   \<and> firstCharacter [0xD83D, 0xDE00] = [0xD83D, 0xDE00]"
  by (simp add: avatar_def truthy_def charAt_def sampleProps_def isLeadingSurrogate_def
      isTrailingSurrogate_def)

section \<open>Props only seed the state\<close>

lemma dispatch_Rerender_state: "state (fst (dispatch (Rerender p') w)) = state w"
  by (simp add: dispatch_def handleEvent_def commit_fields)

lemma commit_props: "commit (w\<lparr>props := p'\<rparr>) = (commit w)\<lparr>props := p'\<rparr>"
  by (cases w) (auto simp: commit_def Let_def commitRefs_eq focusEffect_def)

lemma invoke_props:
  "fst (invoke e (w\<lparr>props := p'\<rparr>))
     = (fst (invoke e w))\<lparr>props := (case e of Rerender r \<Rightarrow> r | _ \<Rightarrow> p')\<rparr>"
  by (cases w; cases e) (auto simp: Let_def focusEffect_def)

lemma dispatch_props:
  "\<exists>q. fst (dispatch e (w\<lparr>props := p'\<rparr>)) = (fst (dispatch e w))\<lparr>props := q\<rparr>"
proof (cases "live w \<or> e = TimerFires")
  case True
  then show ?thesis
    using invoke_props[of e p' w] by (auto simp: dispatch_def handleEvent_def commit_props)
next
  case False
  then show ?thesis
    by (auto simp: dispatch_def intro: exI[of _ p'])
qed

lemma run_props: "\<exists>q. run es (w\<lparr>props := p'\<rparr>) = (run es w)\<lparr>props := q\<rparr>"
proof (induction es arbitrary: w p')
  case Nil
  show ?case by (auto intro: exI[of _ p'])
next
  case (Cons e es)
  obtain q where q: "fst (dispatch e (w\<lparr>props := p'\<rparr>)) = (fst (dispatch e w))\<lparr>props := q\<rparr>"
    using dispatch_props by blast
  from Cons.IH[where w = "fst (dispatch e w)" and p' = q] q show ?case by simp
qed

text \<open>
  C10. \<open>isOpen\<close> starts as the \<open>initiallyOpen\<close> the host passes, false when it passes
  none, and the message as the \<open>defaultMessage\<close> it passes, empty when it passes none. New
  props from the host leave the state cells as they are, and for every sequence of
  events the state cells reached do not depend on the props the instance holds.
\<close>

theorem props_only_seed_state:
  "isOpen (state (mount p)) = (case initiallyOpen p of None \<Rightarrow> False | Some b \<Rightarrow> b)
   \<and> message (state (mount p)) = (case defaultMessage p of None \<Rightarrow> [] | Some m \<Rightarrow> m)
   \<and> state (fst (dispatch (Rerender p') w)) = state w
   \<and> state (run es (w\<lparr>props := p'\<rparr>)) = state (run es w)"
proof (intro conjI)
  show "isOpen (state (mount p)) = (case initiallyOpen p of None \<Rightarrow> False | Some b \<Rightarrow> b)"
    by (simp add: mount_def initialState_def withDefault_def)
  show "message (state (mount p)) = (case defaultMessage p of None \<Rightarrow> [] | Some m \<Rightarrow> m)"
    by (simp add: mount_def initialState_def withDefault_def)
  show "state (fst (dispatch (Rerender p') w)) = state w"
    by (rule dispatch_Rerender_state)
  obtain q where "run es (w\<lparr>props := p'\<rparr>) = (run es w)\<lparr>props := q\<rparr>"
    using run_props by blast
  then show "state (run es (w\<lparr>props := p'\<rparr>)) = state (run es w)" by simp
qed

section \<open>The focus timer\<close>

text \<open>
  C3 as stated fails. After an open transition has scheduled the focus callback, an
  unmount leaves the callback scheduled, and it runs when the timer fires; after a second
  click has closed the panel, the callback is still scheduled and, fired before the exit
  animation has completed, focuses the textarea.
\<close>

theorem focus_timer_not_cancelled:
  "timers (run [MountEffects, ClickFloatingButton, Unmount] (mount sampleProps)) = 1
   \<and> timers (run [MountEffects, ClickFloatingButton, Unmount, TimerFires] (mount sampleProps)) = 0
   \<and> timers (run [MountEffects, ClickFloatingButton, ClickFloatingButton] (mount sampleProps)) = 1
   \<and> outputs [TimerFires]
        (run [MountEffects, ClickFloatingButton, ClickFloatingButton] (mount sampleProps))
       = [Inr [Focus Textarea]]"
  by (simp add: run_defs)

text \<open>Once unmounted, an instance stays unmounted and asks the browser for nothing.\<close>

lemma gone_dispatch:
  "gone w \<Longrightarrow> gone (fst (dispatch e w)) \<and> effectsOf (snd (dispatch e w)) = []"
  by (cases e)
    (simp_all add: gone_def dispatch_def handleEvent_def focusCallback_def effectsOf_def)

lemma gone_outputs: "gone w \<Longrightarrow> concat (map effectsOf (outputs es w)) = []"
proof (induction es arbitrary: w)
  case Nil
  show ?case by simp
next
  case (Cons e es)
  from gone_dispatch[OF Cons.prems, of e] Cons.IH[of "fst (dispatch e w)"]
  show ?case by simp
qed

lemma gone_Unmount: "live w \<Longrightarrow> gone (fst (dispatch Unmount w))"
  by (simp add: gone_def dispatch_def handleEvent_def)

text \<open>
  C3 (as amended). Neither the close button, nor the floating button closing the panel,
  nor an unmount removes a scheduled callback, and a scheduled callback runs when its
  timer fires. The callback asks for nothing when the ref is \<open>null\<close>. The ref is \<open>null\<close>
  once the closed panel has left the tree, and an unmount sets it to \<open>null\<close>: after an
  unmount no event and no timer ever asks for a focus.
\<close>

theorem focus_callback_guarded:
  "(inputRef w = None \<longrightarrow> snd (dispatch TimerFires w) = Inr [])
   \<and> timers (fst (dispatch Unmount w)) = timers w
   \<and> timers (fst (dispatch ClickClose w)) = timers w
   \<and> (isOpen (rendered w) \<longrightarrow> timers (fst (dispatch ClickFloatingButton w)) = timers w)
   \<and> (0 < timers w \<longrightarrow>
        dispatch TimerFires w = (w\<lparr>timers := timers w - 1\<rparr>, Inr (focusCallback w)))
   \<and> (live w \<and> \<not> isOpen (rendered w) \<longrightarrow> inputRef (fst (dispatch ExitComplete w)) = None)
   \<and> (live w \<longrightarrow>
        inputRef (fst (dispatch Unmount w)) = None
        \<and> concat (map effectsOf (outputs es (fst (dispatch Unmount w)))) = [])"
proof (intro conjI impI)
  assume "inputRef w = None"
  then show "snd (dispatch TimerFires w) = Inr []"
    by (simp add: dispatch_def handleEvent_def focusCallback_def)
next
  show "timers (fst (dispatch Unmount w)) = timers w"
    by (simp add: dispatch_def handleEvent_def)
  show "timers (fst (dispatch ClickClose w)) = timers w"
    by (simp add: dispatch_def handleEvent_def timers_commit_closed closeChat_def setIsOpen_def)
next
  assume "isOpen (rendered w)"
  then show "timers (fst (dispatch ClickFloatingButton w)) = timers w"
    by (simp add: dispatch_def handleEvent_def timers_commit_closed toggleOpen_def setIsOpen_def)
next
  assume "0 < timers w"
  then show "dispatch TimerFires w = (w\<lparr>timers := timers w - 1\<rparr>, Inr (focusCallback w))"
    by (simp add: dispatch_def handleEvent_def)
next
  assume "live w \<and> \<not> isOpen (rendered w)"
  then show "inputRef (fst (dispatch ExitComplete w)) = None"
    by (simp add: dispatch_def handleEvent_def)
next
  assume l: "live w"
  then show "inputRef (fst (dispatch Unmount w)) = None"
    by (simp add: dispatch_def handleEvent_def)
  from gone_outputs[OF gone_Unmount[OF l]]
  show "concat (map effectsOf (outputs es (fst (dispatch Unmount w)))) = []" .
qed

theorem focus_callback_guarded_witness:
  "live (run [MountEffects, ClickFloatingButton] (mount sampleProps))
   \<and> isOpen (rendered (run [MountEffects, ClickFloatingButton] (mount sampleProps)))
   \<and> timers (run [MountEffects, ClickFloatingButton] (mount sampleProps)) = 1
   \<and> timers (fst (dispatch ClickFloatingButton
        (run [MountEffects, ClickFloatingButton] (mount sampleProps)))) = 1
   \<and> inputRef (fst (dispatch Unmount (run [MountEffects, ClickFloatingButton] (mount sampleProps))))
       = None
   \<and> snd (dispatch TimerFires
        (fst (dispatch Unmount (run [MountEffects, ClickFloatingButton] (mount sampleProps)))))
       = Inr []
   \<and> concat (map effectsOf (outputs [TimerFires, ClickFloatingButton, TimerFires]
        (fst (dispatch Unmount (run [MountEffects, ClickFloatingButton] (mount sampleProps)))))) = []"
proof -
  let ?w = "run [MountEffects, ClickFloatingButton] (mount sampleProps)"
  have l: "live ?w" and t: "timers ?w = 1" and o: "isOpen (rendered ?w)"
    unfolding opened by simp_all
  note g = focus_callback_guarded[of ?w "[TimerFires, ClickFloatingButton, TimerFires]"]
  from g l have u: "inputRef (fst (dispatch Unmount ?w)) = None"
    and e: "concat (map effectsOf (outputs [TimerFires, ClickFloatingButton, TimerFires]
        (fst (dispatch Unmount ?w)))) = []"
    by blast+
  from g o t have c: "timers (fst (dispatch ClickFloatingButton ?w)) = 1" by simp
  from focus_callback_guarded[of "fst (dispatch Unmount ?w)"] u
  have "snd (dispatch TimerFires (fst (dispatch Unmount ?w))) = Inr []" by blast
  with l o t c u e show ?thesis by blast
qed

end
